theory Spec2Isabelle
  imports Complex_Main "HOL-Library.AList" "HOL-Library.Sublist"
    "HOL-Library.Char_ord" "HOL-Library.List_Lexorder"
begin

section \<open>Values of the Python program\<close>

text \<open>
  The scoring scripts compute with Python numbers read from JSON files. Question numbers
  and correct-answer counts are Python integers (\<^typ>\<open>int\<close>); scores, means, standard
  deviations, weights and cutoffs are numbers that the scripts divide and compare, and they
  are modelled as exact \<^typ>\<open>real\<close>s: the rounding of IEEE doubles is outside the model.
  A dictionary whose iteration order matters is an association list in insertion order;
  a dictionary that is only looked up is a map. Strings are byte strings (UTF-8).
\<close>

datatype py_error = KeyError | ValueError

section \<open>Standardised scores\<close>

text \<open>One entry \<open>{"acertos": n, "ep": v}\<close> of a subject's table of historical scores.\<close>

record escore_item =
  item_acertos :: int
  item_ep :: real

text \<open>
  The statistics of one subject in \<open>info.json\<close>. Every key is read with \<open>dict.get\<close> and a
  default, so every field is optional.
\<close>

record materia_stats =
  media :: "real option"
  desvio_padrao :: "real option"
  escores :: "escore_item list option"

definition stats_vazio :: materia_stats where
  "stats_vazio = \<lparr>media = None, desvio_padrao = None, escores = None\<rparr>"

text \<open>\<open>calcular_ac_ufrgs.calcular_escore_padronizado\<close>\<close>

definition calcular_escore_padronizado :: "real \<Rightarrow> real \<Rightarrow> real \<Rightarrow> real" where
  "calcular_escore_padronizado escore_bruto md dp =
     (if dp = 0 then 500 else ((escore_bruto - md) / dp) * 100 + 500)"

text \<open>The search loop of \<open>obter_ep_por_acertos\<close>: the first entry for the count wins.\<close>

fun buscar_ep :: "escore_item list \<Rightarrow> int \<Rightarrow> real option" where
  "buscar_ep [] n = None"
| "buscar_ep (item # rest) n =
     (if item_acertos item = n then Some (item_ep item) else buscar_ep rest n)"

text \<open>
  \<open>estatisticas.get(materia_lookup, {})\<close>, where the foreign language is looked up under
  \<open>ingles\<close>, and the three reads \<open>get('media', 0)\<close>, \<open>get('desvio_padrao', 1)\<close> and
  \<open>get('escores', [])\<close> of a subject's statistics.
\<close>

definition stats_de :: "(string \<rightharpoonup> materia_stats) \<Rightarrow> string \<Rightarrow> materia_stats" where
  "stats_de estatisticas materia =
     (let materia_lookup = (if materia = ''lingua_estrangeira'' then ''ingles'' else materia)
      in case estatisticas materia_lookup of None \<Rightarrow> stats_vazio | Some s \<Rightarrow> s)"

definition media_de :: "materia_stats \<Rightarrow> real" where
  "media_de st = (case media st of None \<Rightarrow> 0 | Some m \<Rightarrow> m)"

definition desvio_de :: "materia_stats \<Rightarrow> real" where
  "desvio_de st = (case desvio_padrao st of None \<Rightarrow> 1 | Some d \<Rightarrow> d)"

definition escores_de :: "materia_stats \<Rightarrow> escore_item list" where
  "escores_de st = (case escores st of None \<Rightarrow> [] | Some t \<Rightarrow> t)"

text \<open>\<open>calcular_media_harmonica_cursos.obter_ep_por_acertos\<close>\<close>

definition obter_ep_por_acertos :: "(string \<rightharpoonup> materia_stats) \<Rightarrow> string \<Rightarrow> int \<Rightarrow> real" where
  "obter_ep_por_acertos estatisticas materia n =
     (let st = stats_de estatisticas materia
      in case buscar_ep (escores_de st) n of
           Some v \<Rightarrow> v
         | None \<Rightarrow>
             (let md = media_de st; dp = desvio_de st
              in if dp > 0 then ((real_of_int n - md) / dp) * 100 + 500 else 500))"

text \<open>\<open>calcular_media_harmonica_cursos.calcular_ep_redacao\<close>\<close>

definition calcular_ep_redacao :: "real \<Rightarrow> real" where
  "calcular_ep_redacao nota_redacao = ((nota_redacao - 6) / 2) * 100 + 500"

section \<open>Weighted harmonic mean\<close>

text \<open>The abbreviation table inside \<open>calcular_media_harmonica_ponderada\<close>.\<close>

definition mapeamento_abrev :: "string \<rightharpoonup> string" where
  "mapeamento_abrev = map_of
     [(''POR'', ''portugues_redacao''), (''LIT'', ''literatura''), (''GEO'', ''geografia''),
      (''HIS'', ''historia''), (''BIO'', ''biologia''), (''FIS'', ''fisica''),
      (''QUI'', ''quimica''), (''MAT'', ''matematica''), (''LIN'', ''lingua_estrangeira'')]"

text \<open>\<open>eps.get(materia, 500)\<close>\<close>

definition get500 :: "(string \<rightharpoonup> real) \<Rightarrow> string \<Rightarrow> real" where
  "get500 eps materia = (case eps materia of None \<Rightarrow> 500 | Some v \<Rightarrow> v)"

text \<open>
  The loop of \<open>calcular_media_harmonica_ponderada\<close> over \<open>pesos.items()\<close>, with the two
  accumulators \<open>soma_pesos\<close> and \<open>soma_inversos\<close>; a score that is not positive returns
  \<open>0.0\<close> from inside the loop.
\<close>

fun mh_loop :: "(string \<rightharpoonup> real) \<Rightarrow> (string \<times> real) list \<Rightarrow> real \<Rightarrow> real \<Rightarrow> real" where
  "mh_loop eps [] soma_pesos soma_inversos =
     (if soma_inversos > 0 then soma_pesos / soma_inversos else 0)"
| "mh_loop eps ((abrev, peso) # rest) soma_pesos soma_inversos =
     (if abrev = ''total'' then mh_loop eps rest soma_pesos soma_inversos
      else case mapeamento_abrev abrev of
             None \<Rightarrow> mh_loop eps rest soma_pesos soma_inversos
           | Some materia \<Rightarrow>
               (let ep = get500 eps materia
                in if ep > 0 then mh_loop eps rest (soma_pesos + peso) (soma_inversos + peso / ep)
                   else 0))"

definition calcular_media_harmonica_ponderada :: "(string \<rightharpoonup> real) \<Rightarrow> (string \<times> real) list \<Rightarrow> real" where
  "calcular_media_harmonica_ponderada eps pesos = mh_loop eps pesos 0 0"

text \<open>\<open>calcular_media_harmonica_cursos.calcular_eps_por_materia\<close>\<close>

fun eps_loop :: "(string \<rightharpoonup> materia_stats) \<Rightarrow> (string \<times> int) list \<Rightarrow> (string \<rightharpoonup> real) \<Rightarrow> (string \<rightharpoonup> real)" where
  "eps_loop estatisticas [] eps = eps"
| "eps_loop estatisticas ((materia, acertos_num) # rest) eps =
     eps_loop estatisticas rest (eps(materia \<mapsto> obter_ep_por_acertos estatisticas materia acertos_num))"

definition calcular_eps_por_materia :: "(string \<times> int) list \<Rightarrow> (string \<rightharpoonup> materia_stats) \<Rightarrow> real \<Rightarrow> (string \<rightharpoonup> real)" where
  "calcular_eps_por_materia acertos estatisticas nota_redacao =
     (let eps = eps_loop estatisticas acertos Map.empty;
          ep_redacao = calcular_ep_redacao nota_redacao
      in case eps ''portugues'' of
           Some p \<Rightarrow> eps(''portugues_redacao'' \<mapsto> (p + ep_redacao) / 2)
         | None \<Rightarrow> eps(''portugues_redacao'' \<mapsto> ep_redacao))"

section \<open>The argument of classification of \<open>calcular_ac_ufrgs\<close>\<close>

text \<open>
  The first loop of \<open>calcular_ac_para_curso\<close>: one standardised score per subject that has
  questions. \<open>total_questoes_por_materia[materia]\<close> raises \<open>KeyError\<close> for a subject
  without a total.
\<close>

fun ep_loop :: "(string \<rightharpoonup> int) \<Rightarrow> (string \<rightharpoonup> materia_stats) \<Rightarrow> (string \<times> int) list
    \<Rightarrow> (string \<rightharpoonup> real) \<Rightarrow> py_error + (string \<rightharpoonup> real)" where
  "ep_loop total_questoes estatisticas [] escores_padronizados = Inr escores_padronizados"
| "ep_loop total_questoes estatisticas ((materia, n) # rest) escores_padronizados =
     (case total_questoes materia of
        None \<Rightarrow> Inl KeyError
      | Some total_materia \<Rightarrow>
          if total_materia = 0 then ep_loop total_questoes estatisticas rest escores_padronizados
          else
            (let st = stats_de estatisticas materia;
                 ep = calcular_escore_padronizado (real_of_int n) (media_de st) (desvio_de st)
             in ep_loop total_questoes estatisticas rest (escores_padronizados(materia \<mapsto> ep))))"

text \<open>
  The aggregation loop of \<open>calcular_ac_para_curso\<close>. The weight keys are looked up in the
  scores as they are, and a score that is not positive leaves both sums unchanged.
\<close>

fun ac_loop :: "(string \<rightharpoonup> real) \<Rightarrow> (string \<times> real) list \<Rightarrow> real \<Rightarrow> real \<Rightarrow> real" where
  "ac_loop escores_padronizados [] soma_pesos soma_inversos =
     (if soma_inversos > 0 then soma_pesos / soma_inversos else 0)"
| "ac_loop escores_padronizados ((materia_peso, peso) # rest) soma_pesos soma_inversos =
     (if materia_peso = ''total'' then ac_loop escores_padronizados rest soma_pesos soma_inversos
      else
        (let ep = get500 escores_padronizados materia_peso
         in if ep > 0
            then ac_loop escores_padronizados rest (soma_pesos + peso) (soma_inversos + peso / ep)
            else ac_loop escores_padronizados rest soma_pesos soma_inversos))"

definition calcular_ac_para_curso :: "(string \<times> int) list \<Rightarrow> (string \<rightharpoonup> int) \<Rightarrow> (string \<rightharpoonup> materia_stats)
    \<Rightarrow> (string \<times> real) list \<Rightarrow> real \<Rightarrow> py_error + (real \<times> (string \<rightharpoonup> real))" where
  "calcular_ac_para_curso acertos_por_materia total_questoes_por_materia estatisticas pesos_curso nota_redacao =
     (case ep_loop total_questoes_por_materia estatisticas acertos_por_materia Map.empty of
        Inl e \<Rightarrow> Inl e
      | Inr escores_padronizados \<Rightarrow>
          (let ep_redacao = calcular_escore_padronizado nota_redacao 6 2;
               combinados =
                 (case escores_padronizados ''portugues'' of
                    Some p \<Rightarrow> escores_padronizados(''portugues_redacao'' \<mapsto> (p + ep_redacao) / 2)
                  | None \<Rightarrow> escores_padronizados(''portugues_redacao'' \<mapsto> ep_redacao))
           in Inr (ac_loop combinados pesos_curso 0 0, combinados)))"

section \<open>Questions per subject\<close>

text \<open>One entry \<open>{"materia": ..., "questoes": "start-end"}\<close> of a day's \<open>distribuicao\<close>.\<close>

record item_distribuicao =
  item_materia :: string
  item_questoes :: string

text \<open>\<open>info['provas_2024']['estrutura_prova']\<close>, with the \<open>distribuicao\<close> of each day.\<close>

record estrutura_prova =
  dia_1 :: "item_distribuicao list"
  dia_2 :: "item_distribuicao list"

text \<open>\<open>s.replace(' ', '_')\<close>\<close>

definition replace_espaco :: "string \<Rightarrow> string" where
  "replace_espaco s = map (\<lambda>c. if c = CHR '' '' then CHR ''_'' else c) s"

text \<open>\<open>s.split('-')\<close>: the pieces between hyphens, at least one piece.\<close>

fun split_hifen :: "string \<Rightarrow> string list" where
  "split_hifen [] = [[]]"
| "split_hifen (c # cs) =
     (if c = CHR ''-'' then [] # split_hifen cs
      else (case split_hifen cs of [] \<Rightarrow> [[c]] | p # ps \<Rightarrow> (c # p) # ps))"

text \<open>
  \<open>inicio, fim = map(int, questoes_range.split('-'))\<close>. Python's built-in \<open>int\<close> on a
  string is the parameter \<open>py_int\<close> (\<open>None\<close> where it raises); a piece that is not a
  number and a number of pieces other than two raise \<open>ValueError\<close>.
\<close>

definition parse_range :: "(string \<Rightarrow> int option) \<Rightarrow> string \<Rightarrow> py_error + (int \<times> int)" where
  "parse_range py_int questoes_range =
     (case split_hifen questoes_range of
        [a, b] \<Rightarrow>
          (case py_int a of
             None \<Rightarrow> Inl ValueError
           | Some inicio \<Rightarrow>
               (case py_int b of None \<Rightarrow> Inl ValueError | Some fim \<Rightarrow> Inr (inicio, fim)))
      | _ \<Rightarrow> Inl ValueError)"

text \<open>The dictionary \<open>mapeamento\<close> as both functions create it.\<close>

definition mapeamento_inicial :: "(string \<times> int list) list" where
  "mapeamento_inicial =
     [(''portugues'', []), (''literatura'', []), (''matematica'', []), (''geografia'', []),
      (''historia'', []), (''fisica'', []), (''quimica'', []), (''biologia'', []),
      (''lingua_estrangeira'', [])]"

text \<open>\<open>mapeamento[materia].extend(questoes)\<close>: \<open>KeyError\<close> for a subject that is no key.\<close>

definition extend_materia :: "(string \<times> int list) list \<Rightarrow> string \<Rightarrow> int list \<Rightarrow> py_error + (string \<times> int list) list" where
  "extend_materia mapeamento materia questoes =
     (case map_of mapeamento materia of
        None \<Rightarrow> Inl KeyError
      | Some antigas \<Rightarrow> Inr (AList.update materia (antigas @ questoes) mapeamento))"

text \<open>The subject key an entry of day 1 and of day 2 is filed under; \<open>str.lower\<close> is the
  parameter \<open>py_lower\<close>.\<close>

definition chave_dia1 :: "(string \<Rightarrow> string) \<Rightarrow> item_distribuicao \<Rightarrow> string" where
  "chave_dia1 py_lower item =
     (let materia = replace_espaco (py_lower (item_materia item))
      in if materia = ''lingua_portuguesa'' then ''portugues'' else materia)"

definition chave_dia2 :: "(string \<Rightarrow> string) \<Rightarrow> item_distribuicao \<Rightarrow> string" where
  "chave_dia2 py_lower item =
     (let materia = py_lower (item_materia item)
      in if materia \<in> set [''ingles'', ''espanhol''] then ''lingua_estrangeira'' else materia)"

text \<open>The loop over one day's entries; \<open>chave\<close> is the key function of that day.\<close>

fun dia_loop :: "(item_distribuicao \<Rightarrow> string) \<Rightarrow> (string \<Rightarrow> int option) \<Rightarrow> item_distribuicao list
    \<Rightarrow> (string \<times> int list) list \<Rightarrow> py_error + (string \<times> int list) list" where
  "dia_loop chave py_int [] mapeamento = Inr mapeamento"
| "dia_loop chave py_int (item # rest) mapeamento =
     (case parse_range py_int (item_questoes item) of
        Inl e \<Rightarrow> Inl e
      | Inr (inicio, fim) \<Rightarrow>
          (case extend_materia mapeamento (chave item) [inicio..fim] of
             Inl e \<Rightarrow> Inl e
           | Inr mapeamento' \<Rightarrow> dia_loop chave py_int rest mapeamento'))"

text \<open>\<open>mapear_questoes_por_materia\<close>, the same function in \<open>calcular_ac_ufrgs\<close> and in
  \<open>calcular_media_harmonica_cursos\<close>.\<close>

definition mapear_questoes_por_materia :: "(string \<Rightarrow> string) \<Rightarrow> (string \<Rightarrow> int option) \<Rightarrow> estrutura_prova
    \<Rightarrow> py_error + (string \<times> int list) list" where
  "mapear_questoes_por_materia py_lower py_int info =
     (case dia_loop (chave_dia1 py_lower) py_int (dia_1 info) mapeamento_inicial of
        Inl e \<Rightarrow> Inl e
      | Inr mapeamento \<Rightarrow> dia_loop (chave_dia2 py_lower) py_int (dia_2 info) mapeamento)"

text \<open>
  Sample instances of the two built-ins, for evaluating the function on concrete entries:
  \<open>str.lower\<close> on ASCII letters, and \<open>int\<close> on a non-empty string of ASCII digits.
\<close>

definition ascii_lower :: "string \<Rightarrow> string" where
  "ascii_lower s = map (\<lambda>c. if CHR ''A'' \<le> c \<and> c \<le> CHR ''Z'' then char_of (of_char c + (32::nat)) else c) s"

fun digitos :: "string \<Rightarrow> int \<Rightarrow> int option" where
  "digitos [] acc = Some acc"
| "digitos (c # cs) acc =
     (if CHR ''0'' \<le> c \<and> c \<le> CHR ''9''
      then digitos cs (10 * acc + (int (of_char c) - 48)) else None)"

definition int_decimal :: "string \<Rightarrow> int option" where
  "int_decimal s = (if s = [] then None else digitos s 0)"

section \<open>Correct answers per subject\<close>

text \<open>One day of a candidate's record, and the record \<open>results_llm\<close> of one candidate.
  Every key is read with \<open>dict.get\<close> and an empty default.\<close>

record prova =
  iguais :: "int list option"

record results_llm =
  PRIMEIRA_PROVA :: "prova option"
  SEGUNDA_PROVA :: "prova option"

text \<open>\<open>[int(q) for q in prova.get('iguais', [])]\<close>, on a list of integers.\<close>

definition iguais_de :: "prova option \<Rightarrow> int list" where
  "iguais_de p = (case p of None \<Rightarrow> [] | Some pr \<Rightarrow> (case iguais pr of None \<Rightarrow> [] | Some l \<Rightarrow> l))"

text \<open>\<open>acertos[materia] += 1\<close>; every subject is a key of \<open>acertos\<close> from the start.\<close>

definition incrementar :: "string \<Rightarrow> (string \<times> int) list \<Rightarrow> (string \<times> int) list" where
  "incrementar materia acertos =
     (case map_of acertos materia of
        None \<Rightarrow> acertos
      | Some n \<Rightarrow> AList.update materia (n + 1) acertos)"

text \<open>The inner loop of \<open>calcular_ac_ufrgs.contar_acertos_por_materia\<close>; \<open>questoes\<close> is the
  subject's whole list, which the day test reads again for each question.\<close>

fun questoes_loop_ac :: "int list \<Rightarrow> int list \<Rightarrow> string \<Rightarrow> int list \<Rightarrow> int list
    \<Rightarrow> (string \<times> int) list \<Rightarrow> (string \<times> int) list" where
  "questoes_loop_ac iguais_p1 iguais_p2 materia questoes [] acertos = acertos"
| "questoes_loop_ac iguais_p1 iguais_p2 materia questoes (q # qs) acertos =
     (if list_ex (\<lambda>num. 1 \<le> num \<and> num \<le> 60) (filter (\<lambda>num. num = q) questoes)
      then (if q \<in> set iguais_p1
            then questoes_loop_ac iguais_p1 iguais_p2 materia questoes qs (incrementar materia acertos)
            else questoes_loop_ac iguais_p1 iguais_p2 materia questoes qs acertos)
      else (if q \<in> set iguais_p2
            then questoes_loop_ac iguais_p1 iguais_p2 materia questoes qs (incrementar materia acertos)
            else questoes_loop_ac iguais_p1 iguais_p2 materia questoes qs acertos))"

fun materias_loop_ac :: "int list \<Rightarrow> int list \<Rightarrow> (string \<times> int list) list
    \<Rightarrow> (string \<times> int) list \<Rightarrow> (string \<times> int) list" where
  "materias_loop_ac iguais_p1 iguais_p2 [] acertos = acertos"
| "materias_loop_ac iguais_p1 iguais_p2 ((materia, questoes) # rest) acertos =
     materias_loop_ac iguais_p1 iguais_p2 rest
       (questoes_loop_ac iguais_p1 iguais_p2 materia questoes questoes acertos)"

text \<open>\<open>{materia: 0 for materia in mapeamento_questoes.keys()}\<close>\<close>

definition acertos_iniciais :: "(string \<times> int list) list \<Rightarrow> (string \<times> int) list" where
  "acertos_iniciais mapeamento_questoes = map (\<lambda>(materia, questoes). (materia, 0)) mapeamento_questoes"

definition contar_acertos_por_materia_ac :: "results_llm \<Rightarrow> (string \<times> int list) list \<Rightarrow> (string \<times> int) list" where
  "contar_acertos_por_materia_ac results mapeamento_questoes =
     materias_loop_ac (iguais_de (PRIMEIRA_PROVA results)) (iguais_de (SEGUNDA_PROVA results))
       mapeamento_questoes (acertos_iniciais mapeamento_questoes)"

text \<open>The same two loops in \<open>calcular_media_harmonica_cursos.contar_acertos_por_materia\<close>,
  with the day test \<open>q <= 60\<close>.\<close>

fun questoes_loop_mh :: "int list \<Rightarrow> int list \<Rightarrow> string \<Rightarrow> int list
    \<Rightarrow> (string \<times> int) list \<Rightarrow> (string \<times> int) list" where
  "questoes_loop_mh iguais_p1 iguais_p2 materia [] acertos = acertos"
| "questoes_loop_mh iguais_p1 iguais_p2 materia (q # qs) acertos =
     (if q \<le> 60
      then (if q \<in> set iguais_p1
            then questoes_loop_mh iguais_p1 iguais_p2 materia qs (incrementar materia acertos)
            else questoes_loop_mh iguais_p1 iguais_p2 materia qs acertos)
      else (if q \<in> set iguais_p2
            then questoes_loop_mh iguais_p1 iguais_p2 materia qs (incrementar materia acertos)
            else questoes_loop_mh iguais_p1 iguais_p2 materia qs acertos))"

fun materias_loop_mh :: "int list \<Rightarrow> int list \<Rightarrow> (string \<times> int list) list
    \<Rightarrow> (string \<times> int) list \<Rightarrow> (string \<times> int) list" where
  "materias_loop_mh iguais_p1 iguais_p2 [] acertos = acertos"
| "materias_loop_mh iguais_p1 iguais_p2 ((materia, questoes) # rest) acertos =
     materias_loop_mh iguais_p1 iguais_p2 rest
       (questoes_loop_mh iguais_p1 iguais_p2 materia questoes acertos)"

definition contar_acertos_por_materia_mh :: "results_llm \<Rightarrow> (string \<times> int list) list \<Rightarrow> (string \<times> int) list" where
  "contar_acertos_por_materia_mh results mapeamento_questoes =
     materias_loop_mh (iguais_de (PRIMEIRA_PROVA results)) (iguais_de (SEGUNDA_PROVA results))
       mapeamento_questoes (acertos_iniciais mapeamento_questoes)"

section \<open>Cutoffs and approval\<close>

text \<open>The table \<open>mapeamento_especial\<close> of \<open>mapear_curso_nota_corte\<close>: the short course name
  of the weights file and the fragment to look for in the cutoff file, \<open>None\<close> for a course
  without a cutoff. Letters outside ASCII are written as their UTF-8 bytes.\<close>

definition mapeamento_especial :: "(string \<times> string option) list" where
  "mapeamento_especial =
     [
      (''Administra'' @ [CHR 0xC3, CHR 0xA7, CHR 0xC3, CHR 0xA3] @ ''o (D)'',
         Some (''Administra'' @ [CHR 0xC3, CHR 0xA7, CHR 0xC3, CHR 0xA3] @ ''o (Integral'')),
      (''Administra'' @ [CHR 0xC3, CHR 0xA7, CHR 0xC3, CHR 0xA3] @ ''o (N)'',
         Some (''Administra'' @ [CHR 0xC3, CHR 0xA7, CHR 0xC3, CHR 0xA3] @ ''o (Noturno'')),
      (''Administra'' @ [CHR 0xC3, CHR 0xA7, CHR 0xC3, CHR 0xA3] @ ''o P'' @ [CHR 0xC3, CHR 0xBA] @ ''b/Soc (N)'',
         Some (''Administra'' @ [CHR 0xC3, CHR 0xA7, CHR 0xC3, CHR 0xA3] @ ''o P'' @ [CHR 0xC3, CHR 0xBA] @ ''blica e Social'')),
      (''Agronomia'',
         Some (''Agronomia (Integral)'')),
      (''Arquitetura e Urbanismo'',
         Some (''Arquitetura e Urbanismo'')),
      (''Arquivologia (N)'',
         Some (''Arquivologia'')),
      (''Artes Visuais (B)'',
         Some (''Artes Visuais (Bacharelado'')),
      (''Artes Visuais (L)'',
         Some (''Artes Visuais (Licenciatura'')),
      (''Biblioteconomia'',
         Some (''Biblioteconomia'')),
      (''Biomedicina'',
         Some (''Biomedicina'')),
      (''Biotecnologia'',
         Some (''Biotecnologia'')),
      (''Ci'' @ [CHR 0xC3, CHR 0xAA] @ ''ncias Atuariais'',
         Some (''Ci'' @ [CHR 0xC3, CHR 0xAA] @ ''ncias Atuariais'')),
      (''Ci'' @ [CHR 0xC3, CHR 0xAA] @ ''ncias B Bio Mar CLN'',
         Some (''Ci'' @ [CHR 0xC3, CHR 0xAA] @ ''ncias Biol'' @ [CHR 0xC3, CHR 0xB3] @ ''gicas (Bacharelado, P'' @ [CHR 0xC3, CHR 0xB3] @ ''lo Imb'' @ [CHR 0xC3, CHR 0xA9] @ '')'')),
      (''Ci'' @ [CHR 0xC3, CHR 0xAA] @ ''ncias Biol'' @ [CHR 0xC3, CHR 0xB3] @ ''gicas (B)'',
         Some (''Ci'' @ [CHR 0xC3, CHR 0xAA] @ ''ncias Biol'' @ [CHR 0xC3, CHR 0xB3] @ ''gicas (Bacharelado, Campus do Vale)'')),
      (''Ci'' @ [CHR 0xC3, CHR 0xAA] @ ''ncias Biol'' @ [CHR 0xC3, CHR 0xB3] @ ''gicas (L)'',
         Some (''Ci'' @ [CHR 0xC3, CHR 0xAA] @ ''ncias Biol'' @ [CHR 0xC3, CHR 0xB3] @ ''gicas (Licenciatura'')),
      (''Ci'' @ [CHR 0xC3, CHR 0xAA] @ ''ncias Cont'' @ [CHR 0xC3, CHR 0xA1] @ ''beis'',
         Some (''Ci'' @ [CHR 0xC3, CHR 0xAA] @ ''ncias Cont'' @ [CHR 0xC3, CHR 0xA1] @ ''beis'')),
      (''Ci'' @ [CHR 0xC3, CHR 0xAA] @ ''ncias Econ'' @ [CHR 0xC3, CHR 0xB4] @ ''micas (D)'',
         Some (''Ci'' @ [CHR 0xC3, CHR 0xAA] @ ''ncias Econ'' @ [CHR 0xC3, CHR 0xB4] @ ''micas (Integral'')),
      (''Ci'' @ [CHR 0xC3, CHR 0xAA] @ ''ncias Econ'' @ [CHR 0xC3, CHR 0xB4] @ ''micas (N)'',
         Some (''Ci'' @ [CHR 0xC3, CHR 0xAA] @ ''ncias Econ'' @ [CHR 0xC3, CHR 0xB4] @ ''micas (Noturno'')),
      (''Ci'' @ [CHR 0xC3, CHR 0xAA] @ ''ncias Sociais (D)'',
         Some (''Ci'' @ [CHR 0xC3, CHR 0xAA] @ ''ncias Sociais (Integral, Campus do Vale)'')),
      (''Ci'' @ [CHR 0xC3, CHR 0xAA] @ ''ncias Sociais (N)'',
         Some (''Ci'' @ [CHR 0xC3, CHR 0xAA] @ ''ncias Sociais (Noturno, Campus do Vale)'')),
      (''Computa'' @ [CHR 0xC3, CHR 0xA7, CHR 0xC3, CHR 0xA3] @ ''o'',
         Some (''Ci'' @ [CHR 0xC3, CHR 0xAA] @ ''ncia da Computa'' @ [CHR 0xC3, CHR 0xA7, CHR 0xC3, CHR 0xA3] @ ''o'')),
      (''Dan'' @ [CHR 0xC3, CHR 0xA7] @ ''a'',
         Some (''Dan'' @ [CHR 0xC3, CHR 0xA7] @ ''a'')),
      (''Design Produto'',
         Some (''Design de Produto'')),
      (''Design Visual'',
         Some (''Design Visual'')),
      (''Direito (D)'',
         Some (''Ci'' @ [CHR 0xC3, CHR 0xAA] @ ''ncias Jur'' @ [CHR 0xC3, CHR 0xAD] @ ''dicas e Sociais '' @ [CHR 0xE2, CHR 0x80, CHR 0x93] @ '' Direito (Integral'')),
      (''Direito (N)'',
         Some (''Ci'' @ [CHR 0xC3, CHR 0xAA] @ ''ncias Jur'' @ [CHR 0xC3, CHR 0xAD] @ ''dicas e Sociais '' @ [CHR 0xE2, CHR 0x80, CHR 0x93] @ '' Direito (Noturno'')),
      (''Educa'' @ [CHR 0xC3, CHR 0xA7, CHR 0xC3, CHR 0xA3] @ ''o F'' @ [CHR 0xC3, CHR 0xAD] @ ''sica (B)'',
         Some (''ABI '' @ [CHR 0xE2, CHR 0x80, CHR 0x93] @ '' Educa'' @ [CHR 0xC3, CHR 0xA7, CHR 0xC3, CHR 0xA3] @ ''o F'' @ [CHR 0xC3, CHR 0xAD] @ ''sica'')),
      (''Enfermagem'',
         Some (''Enfermagem'')),
      (''Engenharia Ambiental'',
         Some (''Engenharia Ambiental'')),
      (''Engenharia Cartogr'' @ [CHR 0xC3, CHR 0xA1] @ ''fica (N)'',
         Some (''Engenharia Cartogr'' @ [CHR 0xC3, CHR 0xA1] @ ''fica'')),
      (''Engenharia Civil'',
         Some (''Engenharia Civil'')),
      (''Engenharia Contr Automa'' @ [CHR 0xC3, CHR 0xA7, CHR 0xC3, CHR 0xA3] @ ''o'',
         Some (''Engenharia de Controle e Automa'' @ [CHR 0xC3, CHR 0xA7, CHR 0xC3, CHR 0xA3] @ ''o'')),
      (''Engenharia de Alimentos'',
         Some (''Engenharia de Alimentos'')),
      (''Engenharia de Computa'' @ [CHR 0xC3, CHR 0xA7, CHR 0xC3, CHR 0xA3] @ ''o'',
         Some (''Engenharia de Computa'' @ [CHR 0xC3, CHR 0xA7, CHR 0xC3, CHR 0xA3] @ ''o'')),
      (''Engenharia de Energia'',
         Some (''Engenharia de Energia'')),
      (''Engenharia de Materiais'',
         Some (''Engenharia de Materiais'')),
      (''Engenharia de Minas'',
         Some (''Engenharia de Minas'')),
      (''Engenharia de Produ'' @ [CHR 0xC3, CHR 0xA7, CHR 0xC3, CHR 0xA3] @ ''o'',
         Some (''Engenharia de Produ'' @ [CHR 0xC3, CHR 0xA7, CHR 0xC3, CHR 0xA3] @ ''o'')),
      (''Engenharia de Servi'' @ [CHR 0xC3, CHR 0xA7] @ ''os'',
         Some (''Engenharia de Servi'' @ [CHR 0xC3, CHR 0xA7] @ ''os'')),
      (''Engenharia El'' @ [CHR 0xC3, CHR 0xA9] @ ''trica'',
         Some (''Engenharia El'' @ [CHR 0xC3, CHR 0xA9] @ ''trica'')),
      (''Engenharia F'' @ [CHR 0xC3, CHR 0xAD] @ ''sica'',
         Some (''Engenharia F'' @ [CHR 0xC3, CHR 0xAD] @ ''sica'')),
      (''Engenharia Gest Energia CLN'',
         Some (''Engenharia de Gest'' @ [CHR 0xC3, CHR 0xA3] @ ''o de Energia'')),
      (''Engenharia H'' @ [CHR 0xC3, CHR 0xAD] @ ''drica'',
         Some (''Engenharia H'' @ [CHR 0xC3, CHR 0xAD] @ ''drica'')),
      (''Engenharia Mec'' @ [CHR 0xC3, CHR 0xA2] @ ''nica'',
         Some (''Engenharia Mec'' @ [CHR 0xC3, CHR 0xA2] @ ''nica'')),
      (''Engenharia Metal'' @ [CHR 0xC3, CHR 0xBA] @ ''rgica'',
         Some (''Engenharia Metal'' @ [CHR 0xC3, CHR 0xBA] @ ''rgica'')),
      (''Engenharia Qu'' @ [CHR 0xC3, CHR 0xAD] @ ''mica'',
         Some (''Engenharia Qu'' @ [CHR 0xC3, CHR 0xAD] @ ''mica'')),
      (''Estat'' @ [CHR 0xC3, CHR 0xAD] @ ''stica'',
         Some (''Estat'' @ [CHR 0xC3, CHR 0xAD] @ ''stica'')),
      (''Farm'' @ [CHR 0xC3, CHR 0xA1] @ ''cia'',
         Some (''Farm'' @ [CHR 0xC3, CHR 0xA1] @ ''cia'')),
      (''Filosofia (B) (D)'',
         Some (''Filosofia (Integral'')),
      (''Filosofia (L) (N)'',
         Some (''Filosofia (Noturno, Licenciatura'')),
      (''Fisioterapia'',
         Some (''Fisioterapia'')),
      (''Fonoaudiologia'',
         Some (''Fonoaudiologia'')),
      (''F'' @ [CHR 0xC3, CHR 0xAD] @ ''sica (B)'',
         Some (''F'' @ [CHR 0xC3, CHR 0xAD] @ ''sica (Integral, Campus do Vale)'')),
      (''F'' @ [CHR 0xC3, CHR 0xAD] @ ''sica (L) (D)'',
         Some (''F'' @ [CHR 0xC3, CHR 0xAD] @ ''sica (Licenciatura, Campus do Vale)'')),
      (''F'' @ [CHR 0xC3, CHR 0xAD] @ ''sica (L) (N)'',
         Some (''F'' @ [CHR 0xC3, CHR 0xAD] @ ''sica (Noturno, Licenciatura'')),
      (''F'' @ [CHR 0xC3, CHR 0xAD] @ ''sica Astrof'' @ [CHR 0xC3, CHR 0xAD] @ ''sica'',
         Some (''F'' @ [CHR 0xC3, CHR 0xAD] @ ''sica (Integral, Campus do Vale)'')),
      (''Geografia (D)'',
         Some (''Geografia (Bacharelado, Campus do Vale)'')),
      (''Geografia (L) CLN'',
         Some (''Geografia (Noturno, Licenciatura, Campus Litoral Norte)'')),
      (''Geografia (N)'',
         Some (''Geografia (Noturno, Bacharelado'')),
      (''Geologia'',
         Some (''Geologia'')),
      (''Hist'' @ [CHR 0xC3, CHR 0xB3] @ ''ria (D)'',
         Some (''Hist'' @ [CHR 0xC3, CHR 0xB3] @ ''ria (Integral, Bacharelado'')),
      (''Hist'' @ [CHR 0xC3, CHR 0xB3] @ ''ria (N)'',
         Some (''Hist'' @ [CHR 0xC3, CHR 0xB3] @ ''ria (Noturno, Bacharelado'')),
      (''Hist'' @ [CHR 0xC3, CHR 0xB3] @ ''ria da Arte'',
         Some (''Hist'' @ [CHR 0xC3, CHR 0xB3] @ ''ria da Arte'')),
      (''Inter Ci'' @ [CHR 0xC3, CHR 0xAA] @ ''ncia Tecno'',
         Some (''Interdisciplinar em Ci'' @ [CHR 0xC3, CHR 0xAA] @ ''ncia e Tecnologia'')),
      (''Jornalismo'',
         Some (''Jornalismo'')),
      (''Letras (B)'',
         Some (''Letras (Bacharelado'')),
      (''Letras (B) Libras'',
         Some (''Letras (Licenciatura'')),
      (''M'' @ [CHR 0xC3, CHR 0xBA] @ ''sica'',
         None),
      (''Nutri'' @ [CHR 0xC3, CHR 0xA7, CHR 0xC3, CHR 0xA3] @ ''o'',
         Some (''Nutri'' @ [CHR 0xC3, CHR 0xA7, CHR 0xC3, CHR 0xA3] @ ''o'')),
      (''Odontologia (D)'',
         Some (''Odontologia (Integral'')),
      (''Odontologia (N)'',
         Some (''Odontologia (Noturno'')),
      (''Pedagogia (M)'',
         Some (''Pedagogia (Matutino'')),
      (''Pedagogia (N)'',
         Some (''Pedagogia (Noturno'')),
      (''Pol'' @ [CHR 0xC3, CHR 0xAD] @ ''ticas P'' @ [CHR 0xC3, CHR 0xBA] @ ''blicas'',
         Some (''Pol'' @ [CHR 0xC3, CHR 0xAD] @ ''ticas P'' @ [CHR 0xC3, CHR 0xBA] @ ''blicas'')),
      (''Psicologia (D)'',
         Some (''Psicologia (Integral'')),
      (''Psicologia (N)'',
         Some (''Psicologia (Noturno'')),
      (''Publicidade & Propaganda'',
         Some (''Publicidade e Propaganda'')),
      (''Qu'' @ [CHR 0xC3, CHR 0xAD] @ ''mica'',
         Some (''Qu'' @ [CHR 0xC3, CHR 0xAD] @ ''mica (Integral'')),
      (''Qu'' @ [CHR 0xC3, CHR 0xAD] @ ''mica (L) (N)'',
         Some (''Qu'' @ [CHR 0xC3, CHR 0xAD] @ ''mica (Noturno, Licenciatura'')),
      (''Qu'' @ [CHR 0xC3, CHR 0xAD] @ ''mica Industrial (I)'',
         Some (''Qu'' @ [CHR 0xC3, CHR 0xAD] @ ''mica Industrial (Integral'')),
      (''Qu'' @ [CHR 0xC3, CHR 0xAD] @ ''mica Industrial (N)'',
         Some (''Qu'' @ [CHR 0xC3, CHR 0xAD] @ ''mica Industrial (Noturno'')),
      (''Rel. Internacionais'',
         Some (''Rela'' @ [CHR 0xC3, CHR 0xA7, CHR 0xC3, CHR 0xB5] @ ''es Internacionais'')),
      (''Rela'' @ [CHR 0xC3, CHR 0xA7, CHR 0xC3, CHR 0xB5] @ ''es P'' @ [CHR 0xC3, CHR 0xBA] @ ''blicas'',
         Some (''Rela'' @ [CHR 0xC3, CHR 0xA7, CHR 0xC3, CHR 0xB5] @ ''es P'' @ [CHR 0xC3, CHR 0xBA] @ ''blicas'')),
      (''Sa'' @ [CHR 0xC3, CHR 0xBA] @ ''de Coletiva'',
         None),
      (''Servi'' @ [CHR 0xC3, CHR 0xA7] @ ''o Social'',
         None),
      (''Teatro'',
         None),
      (''Teatro (L)'',
         None),
      (''ZZ CODE'',
         None),
      (''Zootecnia'',
         None)
     ]"

text \<open>\<open>padrao in curso_completo\<close> on strings: \<open>padrao\<close> occurs as a contiguous piece.\<close>

fun ocorre_em :: "string \<Rightarrow> string \<Rightarrow> bool" where
  "ocorre_em padrao [] = (padrao = [])"
| "ocorre_em padrao (c # cs) = (prefix padrao (c # cs) \<or> ocorre_em padrao cs)"

text \<open>The search loop over \<open>notas_corte.items()\<close>.\<close>

fun buscar_nota :: "string \<Rightarrow> (string \<times> real) list \<Rightarrow> (string \<times> real) option" where
  "buscar_nota padrao [] = None"
| "buscar_nota padrao ((curso_completo, nota) # rest) =
     (if ocorre_em padrao curso_completo then Some (curso_completo, nota)
      else buscar_nota padrao rest)"

text \<open>\<open>mapear_curso_nota_corte\<close>; the result \<open>(None, None)\<close> is \<open>None\<close>.\<close>

definition mapear_curso_nota_corte :: "string \<Rightarrow> (string \<times> real) list \<Rightarrow> (string \<times> real) option" where
  "mapear_curso_nota_corte nome_curso_pesos notas_corte =
     (case map_of mapeamento_especial nome_curso_pesos of
        None \<Rightarrow> None
      | Some None \<Rightarrow> None
      | Some (Some padrao) \<Rightarrow> buscar_nota padrao notas_corte)"

text \<open>The three lists that \<open>main\<close> of \<open>verificar_aprovacao\<close> fills for one candidate.\<close>

record particao =
  aprovados :: "(string \<times> string \<times> real \<times> real \<times> real) list"
  reprovados :: "(string \<times> string \<times> real \<times> real \<times> real) list"
  sem_nota_corte :: "(string \<times> real) list"

text \<open>
  The classification loop of \<open>main\<close>. The condition \<open>curso_completo and nota_corte\<close> is
  Python's truth test: a name that is neither \<open>None\<close> nor empty and a cutoff that is neither
  \<open>None\<close> nor zero.
\<close>

fun classificar_loop :: "(string \<times> real) list \<Rightarrow> (string \<times> real) list \<Rightarrow> particao \<Rightarrow> particao" where
  "classificar_loop notas_corte [] p = p"
| "classificar_loop notas_corte ((curso, mh) # rest) p =
     (case mapear_curso_nota_corte curso notas_corte of
        None \<Rightarrow> classificar_loop notas_corte rest (p\<lparr>sem_nota_corte := sem_nota_corte p @ [(curso, mh)]\<rparr>)
      | Some (curso_completo, nota_corte) \<Rightarrow>
          if curso_completo \<noteq> [] \<and> nota_corte \<noteq> 0
          then (let diferenca = mh - nota_corte
                in if mh \<ge> nota_corte
                   then classificar_loop notas_corte rest
                          (p\<lparr>aprovados := aprovados p @ [(curso, curso_completo, mh, nota_corte, diferenca)]\<rparr>)
                   else classificar_loop notas_corte rest
                          (p\<lparr>reprovados := reprovados p @ [(curso, curso_completo, mh, nota_corte, diferenca)]\<rparr>))
          else classificar_loop notas_corte rest (p\<lparr>sem_nota_corte := sem_nota_corte p @ [(curso, mh)]\<rparr>))"

text \<open>
  One candidate's pass through \<open>main\<close>: the harmonic mean of every course of the weights
  file, then the classification of the courses in the order of \<open>sorted(pesos_cursos.keys())\<close>.
  The keys of a dictionary are distinct, so reading \<open>llm_resultados[llm_nome][curso]\<close> for
  each sorted key is going through the pairs of course and mean sorted by course. Python
  orders strings by code point, which is the order of their UTF-8 bytes.
\<close>

definition classificar_cursos :: "(string \<rightharpoonup> real) \<Rightarrow> (string \<times> (string \<times> real) list) list
    \<Rightarrow> (string \<times> real) list \<Rightarrow> particao" where
  "classificar_cursos eps pesos_cursos notas_corte =
     classificar_loop notas_corte
       (sort_key fst (map (\<lambda>(curso, pesos). (curso, calcular_media_harmonica_ponderada eps pesos)) pesos_cursos))
       \<lparr>aprovados = [], reprovados = [], sem_nota_corte = []\<rparr>"

section \<open>Notions used to state the properties\<close>

text \<open>The statistics with every table of historical scores removed.\<close>

definition sem_tabelas :: "(string \<rightharpoonup> materia_stats) \<Rightarrow> (string \<rightharpoonup> materia_stats)" where
  "sem_tabelas estatisticas = (\<lambda>m. map_option (\<lambda>s. s\<lparr>escores := None\<rparr>) (estatisticas m))"

text \<open>The questions \<open>range(inicio, fim + 1)\<close> of one entry, none when \<open>inicio > fim\<close>.\<close>

definition faixa :: "(string \<Rightarrow> int option) \<Rightarrow> item_distribuicao \<Rightarrow> int list" where
  "faixa py_int item =
     (case parse_range py_int (item_questoes item) of
        Inl e \<Rightarrow> []
      | Inr (inicio, fim) \<Rightarrow> [inicio..fim])"

text \<open>The ranges of the entries filed under one subject, one after the other.\<close>

definition questoes_de :: "(item_distribuicao \<Rightarrow> string) \<Rightarrow> (string \<Rightarrow> int option)
    \<Rightarrow> item_distribuicao list \<Rightarrow> string \<Rightarrow> int list" where
  "questoes_de chave py_int items materia =
     concat (map (faixa py_int) (filter (\<lambda>item. chave item = materia) items))"

text \<open>An entry whose range reads as two integers and whose subject is one of the keys.\<close>

definition item_valido :: "(item_distribuicao \<Rightarrow> string) \<Rightarrow> (string \<Rightarrow> int option) \<Rightarrow> string list
    \<Rightarrow> item_distribuicao \<Rightarrow> bool" where
  "item_valido chave py_int chaves item =
     (\<not> isl (parse_range py_int (item_questoes item)) \<and> chave item \<in> set chaves)"

definition estrutura_valida :: "(string \<Rightarrow> string) \<Rightarrow> (string \<Rightarrow> int option) \<Rightarrow> estrutura_prova \<Rightarrow> bool" where
  "estrutura_valida py_lower py_int info =
     (list_all (item_valido (chave_dia1 py_lower) py_int (map fst mapeamento_inicial)) (dia_1 info) \<and>
      list_all (item_valido (chave_dia2 py_lower) py_int (map fst mapeamento_inicial)) (dia_2 info))"






section \<open>Standardisation: the table and the degenerate deviation\<close>

lemma buscar_ep_None: "buscar_ep t n = None \<longleftrightarrow> n \<notin> item_acertos ` set t"
  by (induction t) auto

lemma buscar_ep_find:
  "find (\<lambda>item. item_acertos item = n) t = Some item \<Longrightarrow> buscar_ep t n = Some (item_ep item)"
  by (induction t) (auto split: if_splits)

lemma stats_de_sem_tabelas:
  "media_de (stats_de (sem_tabelas e) m) = media_de (stats_de e m)"
  "desvio_de (stats_de (sem_tabelas e) m) = desvio_de (stats_de e m)"
  by (auto simp: sem_tabelas_def stats_de_def media_de_def desvio_de_def stats_vazio_def Let_def
      split: option.splits)

lemma ep_loop_sem_tabelas: "ep_loop t (sem_tabelas e) a esc = ep_loop t e a esc"
  by (induction a arbitrary: esc) (auto simp: stats_de_sem_tabelas Let_def split: option.splits)

text \<open>
  C4, as the claim states it, fails for \<open>obter_ep_por_acertos\<close>: with a standard deviation
  of zero and a table entry for the count, the table's score is returned, not 500.
\<close>

theorem obter_ep_desvio_zero_counterexample:
  "desvio_de (stats_de [''matematica'' \<mapsto> \<lparr>media = Some 15, desvio_padrao = Some 0,
        escores = Some [\<lparr>item_acertos = 3, item_ep = 275\<rparr>]\<rparr>] ''matematica'') = 0
   \<and> obter_ep_por_acertos
      [''matematica'' \<mapsto> \<lparr>media = Some 15, desvio_padrao = Some 0,
        escores = Some [\<lparr>item_acertos = 3, item_ep = 275\<rparr>]\<rparr>] ''matematica'' 3 = 275"
  by (simp add: obter_ep_por_acertos_def stats_de_def desvio_de_def escores_de_def)

text \<open>
  C4 (amended): with a standard deviation of zero, \<open>calcular_escore_padronizado\<close> returns
  exactly 500 for every raw score, and \<open>obter_ep_por_acertos\<close> returns exactly 500 for every
  count that has no entry in the subject's table of scores.
\<close>

theorem desvio_zero_500:
  "calcular_escore_padronizado escore_bruto md 0 = 500 \<and>
   (desvio_de (stats_de estatisticas materia) = 0 \<and>
    n \<notin> item_acertos ` set (escores_de (stats_de estatisticas materia)) \<longrightarrow>
    obter_ep_por_acertos estatisticas materia n = 500)"
  by (simp add: calcular_escore_padronizado_def obter_ep_por_acertos_def Let_def
      buscar_ep_None[symmetric])

theorem desvio_zero_500_witness:
  "calcular_escore_padronizado 7 15 0 = 500 \<and>
   desvio_de (stats_de [''fisica'' \<mapsto> \<lparr>media = Some 15, desvio_padrao = Some 0,
        escores = Some [\<lparr>item_acertos = 3, item_ep = 275\<rparr>]\<rparr>] ''fisica'') = 0 \<and>
   4 \<notin> item_acertos ` set (escores_de (stats_de [''fisica'' \<mapsto> \<lparr>media = Some 15,
        desvio_padrao = Some 0, escores = Some [\<lparr>item_acertos = 3, item_ep = 275\<rparr>]\<rparr>] ''fisica'')) \<and>
   obter_ep_por_acertos [''fisica'' \<mapsto> \<lparr>media = Some 15, desvio_padrao = Some 0,
        escores = Some [\<lparr>item_acertos = 3, item_ep = 275\<rparr>]\<rparr>] ''fisica'' 4 = 500"
  using desvio_zero_500 [of 7 15 "[''fisica'' \<mapsto> \<lparr>media = Some 15, desvio_padrao = Some 0,
        escores = Some [\<lparr>item_acertos = 3, item_ep = 275\<rparr>]\<rparr>]" "''fisica''" 4]
  by (simp add: stats_de_def desvio_de_def escores_de_def)

text \<open>
  C5, as the claim states it, fails on the path of \<open>calcular_ac_para_curso\<close>: the table has
  the score 275 for three correct answers, \<open>obter_ep_por_acertos\<close> returns it, and
  \<open>calcular_ac_para_curso\<close> gives the subject the score 260 of the formula.
\<close>

theorem calcular_ac_para_curso_tabela_counterexample:
  "obter_ep_por_acertos
     [''matematica'' \<mapsto> \<lparr>media = Some 15, desvio_padrao = Some 5,
        escores = Some [\<lparr>item_acertos = 3, item_ep = 275\<rparr>]\<rparr>] ''matematica'' 3 = 275
   \<and> calcular_ac_para_curso [(''matematica'', 3)] [''matematica'' \<mapsto> 30]
     [''matematica'' \<mapsto> \<lparr>media = Some 15, desvio_padrao = Some 5,
        escores = Some [\<lparr>item_acertos = 3, item_ep = 275\<rparr>]\<rparr>]
     [] 8
   = Inr (0, [''matematica'' \<mapsto> 260, ''portugues_redacao'' \<mapsto> 600])"
  by (simp add: obter_ep_por_acertos_def escores_de_def calcular_ac_para_curso_def stats_de_def
      media_de_def desvio_de_def calcular_escore_padronizado_def)

lemma ep_loop_fora:
  "ep_loop t e a esc0 = Inr esc \<Longrightarrow> m \<notin> fst ` set a \<Longrightarrow> esc m = esc0 m"
proof (induction a arbitrary: esc0)
  case Nil
  then show ?case by simp
next
  case (Cons kn a)
  obtain k n where kn: "kn = (k, n)" by (cases kn)
  from Cons.prems(2) kn have km: "k \<noteq> m" and fora: "m \<notin> fst ` set a" by auto
  from Cons.prems(1) kn obtain tot where tot: "t k = Some tot"
    by (cases "t k") simp_all
  show ?case
  proof (cases "tot = 0")
    case True
    with Cons.prems(1) kn tot have "ep_loop t e a esc0 = Inr esc" by simp
    from Cons.IH[OF this fora] show ?thesis .
  next
    case False
    with Cons.prems(1) kn tot have
      "ep_loop t e a (esc0(k \<mapsto> calcular_escore_padronizado (real_of_int n)
          (media_de (stats_de e k)) (desvio_de (stats_de e k)))) = Inr esc"
      by (simp add: Let_def)
    from Cons.IH[OF this fora] km show ?thesis by simp
  qed
qed

lemma ep_loop_formula:
  "ep_loop t e a esc0 = Inr esc \<Longrightarrow> distinct (map fst a) \<Longrightarrow> (m, n) \<in> set a \<Longrightarrow>
   t m \<noteq> Some 0 \<Longrightarrow>
   esc m = Some (calcular_escore_padronizado (real_of_int n)
              (media_de (stats_de e m)) (desvio_de (stats_de e m)))"
proof (induction a arbitrary: esc0)
  case Nil
  then show ?case by simp
next
  case (Cons kn a)
  obtain k n' where kn: "kn = (k, n')" by (cases kn)
  from Cons.prems(1) kn obtain tot where tot: "t k = Some tot"
    by (cases "t k") simp_all
  from Cons.prems(2) kn have dist: "distinct (map fst a)" and kfora: "k \<notin> fst ` set a" by auto
  show ?case
  proof (cases "(m, n) = (k, n')")
    case True
    then have mk: "m = k" and nn: "n = n'" by simp_all
    from Cons.prems(4) tot mk have "tot \<noteq> 0" by simp
    with Cons.prems(1) kn tot have r:
      "ep_loop t e a (esc0(k \<mapsto> calcular_escore_padronizado (real_of_int n')
          (media_de (stats_de e k)) (desvio_de (stats_de e k)))) = Inr esc"
      by (simp add: Let_def)
    from ep_loop_fora[OF r kfora] mk nn show ?thesis by simp
  next
    case False
    with Cons.prems(3) kn have dentro: "(m, n) \<in> set a" by auto
    show ?thesis
    proof (cases "tot = 0")
      case True
      with Cons.prems(1) kn tot have "ep_loop t e a esc0 = Inr esc" by simp
      from Cons.IH[OF this dist dentro Cons.prems(4)] show ?thesis .
    next
      case False
      with Cons.prems(1) kn tot have
        "ep_loop t e a (esc0(k \<mapsto> calcular_escore_padronizado (real_of_int n')
            (media_de (stats_de e k)) (desvio_de (stats_de e k)))) = Inr esc"
        by (simp add: Let_def)
      from Cons.IH[OF this dist dentro Cons.prems(4)] show ?thesis .
    qed
  qed
qed

lemma calcular_ac_para_curso_formula:
  assumes r: "calcular_ac_para_curso acertos totais estatisticas pesos nota = Inr (ac, esc)"
    and d: "distinct (map fst acertos)" and i: "(m, k) \<in> set acertos"
    and t: "totais m \<noteq> Some 0" and p: "m \<noteq> ''portugues_redacao''"
  shows "esc m = Some (calcular_escore_padronizado (real_of_int k)
              (media_de (stats_de estatisticas m)) (desvio_de (stats_de estatisticas m)))"
proof -
  from r obtain esc1 where e1: "ep_loop totais estatisticas acertos Map.empty = Inr esc1"
    by (cases "ep_loop totais estatisticas acertos Map.empty") (simp_all add: calcular_ac_para_curso_def)
  from r e1 p have "esc m = esc1 m"
    by (auto simp: calcular_ac_para_curso_def Let_def split: option.splits)
  with ep_loop_formula[OF e1 d i t] show ?thesis by simp
qed

text \<open>
  C5 (amended): \<open>obter_ep_por_acertos\<close> returns the score of the first table entry for the
  raw count when the table has one; when it has none and the standard deviation is positive,
  it returns \<open>((count - mean) / std_dev) * 100 + 500\<close>. \<open>calcular_ac_para_curso\<close> standardises
  with the formula alone: its result is the same with every table removed, and every subject
  of \<open>acertos_por_materia\<close> that has questions gets \<open>((count - mean) / std_dev) * 100 + 500\<close>,
  or 500 when the deviation is zero, whatever the table says.
\<close>

theorem tabela_tem_precedencia:
  "(find (\<lambda>item. item_acertos item = n) (escores_de (stats_de estatisticas materia)) = Some item
      \<longrightarrow> obter_ep_por_acertos estatisticas materia n = item_ep item)
   \<and> (n' \<notin> item_acertos ` set (escores_de (stats_de estatisticas materia))
       \<and> desvio_de (stats_de estatisticas materia) > 0 \<longrightarrow>
      obter_ep_por_acertos estatisticas materia n' =
        ((real_of_int n' - media_de (stats_de estatisticas materia))
           / desvio_de (stats_de estatisticas materia)) * 100 + 500)
   \<and> calcular_ac_para_curso acertos totais estatisticas pesos nota
      = calcular_ac_para_curso acertos totais (sem_tabelas estatisticas) pesos nota
   \<and> (calcular_ac_para_curso acertos totais estatisticas pesos nota = Inr (ac, esc)
       \<and> distinct (map fst acertos) \<and> (materia', k) \<in> set acertos
       \<and> totais materia' \<noteq> Some 0 \<and> materia' \<noteq> ''portugues_redacao'' \<longrightarrow>
      esc materia' =
        Some (if desvio_de (stats_de estatisticas materia') = 0 then 500
              else ((real_of_int k - media_de (stats_de estatisticas materia'))
                      / desvio_de (stats_de estatisticas materia')) * 100 + 500))"
proof (intro conjI impI)
  assume "find (\<lambda>item. item_acertos item = n) (escores_de (stats_de estatisticas materia)) = Some item"
  then show "obter_ep_por_acertos estatisticas materia n = item_ep item"
    by (simp add: obter_ep_por_acertos_def Let_def buscar_ep_find)
next
  assume "n' \<notin> item_acertos ` set (escores_de (stats_de estatisticas materia))
       \<and> desvio_de (stats_de estatisticas materia) > 0"
  then show "obter_ep_por_acertos estatisticas materia n' =
        ((real_of_int n' - media_de (stats_de estatisticas materia))
           / desvio_de (stats_de estatisticas materia)) * 100 + 500"
    by (simp add: obter_ep_por_acertos_def Let_def buscar_ep_None[symmetric])
next
  show "calcular_ac_para_curso acertos totais estatisticas pesos nota
      = calcular_ac_para_curso acertos totais (sem_tabelas estatisticas) pesos nota"
    by (simp add: calcular_ac_para_curso_def ep_loop_sem_tabelas)
next
  assume h: "calcular_ac_para_curso acertos totais estatisticas pesos nota = Inr (ac, esc)
       \<and> distinct (map fst acertos) \<and> (materia', k) \<in> set acertos
       \<and> totais materia' \<noteq> Some 0 \<and> materia' \<noteq> ''portugues_redacao''"
  then have "esc materia' = Some (calcular_escore_padronizado (real_of_int k)
              (media_de (stats_de estatisticas materia')) (desvio_de (stats_de estatisticas materia')))"
    by (intro calcular_ac_para_curso_formula [of acertos totais estatisticas pesos nota ac esc]) simp_all
  then show "esc materia' =
        Some (if desvio_de (stats_de estatisticas materia') = 0 then 500
              else ((real_of_int k - media_de (stats_de estatisticas materia'))
                      / desvio_de (stats_de estatisticas materia')) * 100 + 500)"
    by (simp add: calcular_escore_padronizado_def)
qed

theorem tabela_tem_precedencia_witness:
  "find (\<lambda>item. item_acertos item = 3) (escores_de (stats_de
      [''matematica'' \<mapsto> \<lparr>media = Some 15, desvio_padrao = Some 5,
         escores = Some [\<lparr>item_acertos = 3, item_ep = 275\<rparr>]\<rparr>] ''matematica''))
     = Some \<lparr>item_acertos = 3, item_ep = 275\<rparr>
   \<and> obter_ep_por_acertos
      [''matematica'' \<mapsto> \<lparr>media = Some 15, desvio_padrao = Some 5,
         escores = Some [\<lparr>item_acertos = 3, item_ep = 275\<rparr>]\<rparr>] ''matematica'' 3 = 275
   \<and> 4 \<notin> item_acertos ` set (escores_de (stats_de
      [''matematica'' \<mapsto> \<lparr>media = Some 15, desvio_padrao = Some 5,
         escores = Some [\<lparr>item_acertos = 3, item_ep = 275\<rparr>]\<rparr>] ''matematica''))
   \<and> desvio_de (stats_de
      [''matematica'' \<mapsto> \<lparr>media = Some 15, desvio_padrao = Some 5,
         escores = Some [\<lparr>item_acertos = 3, item_ep = 275\<rparr>]\<rparr>] ''matematica'') > 0
   \<and> obter_ep_por_acertos
      [''matematica'' \<mapsto> \<lparr>media = Some 15, desvio_padrao = Some 5,
         escores = Some [\<lparr>item_acertos = 3, item_ep = 275\<rparr>]\<rparr>] ''matematica'' 4 = 280
   \<and> calcular_ac_para_curso [(''matematica'', 3)] [''matematica'' \<mapsto> 30]
        [''matematica'' \<mapsto> \<lparr>media = Some 15, desvio_padrao = Some 5,
           escores = Some [\<lparr>item_acertos = 3, item_ep = 275\<rparr>]\<rparr>] [] 8
      = Inr (0, [''matematica'' \<mapsto> 260, ''portugues_redacao'' \<mapsto> 600])
   \<and> distinct (map fst [(''matematica'', 3 :: int)])
   \<and> (''matematica'', 3) \<in> set [(''matematica'', 3 :: int)]
   \<and> [''matematica'' \<mapsto> (30 :: int)] ''matematica'' \<noteq> Some 0
   \<and> ''matematica'' \<noteq> ''portugues_redacao''
   \<and> [''matematica'' \<mapsto> (260 :: real), ''portugues_redacao'' \<mapsto> 600] ''matematica''
      = Some (((real_of_int 3 - 15) / 5) * 100 + 500)"
  using tabela_tem_precedencia [where n = 3 and n' = 4 and materia = "''matematica''"
      and estatisticas = "[''matematica'' \<mapsto> \<lparr>media = Some 15, desvio_padrao = Some 5,
         escores = Some [\<lparr>item_acertos = 3, item_ep = 275\<rparr>]\<rparr>]"
      and item = "\<lparr>item_acertos = 3, item_ep = 275\<rparr>"
      and acertos = "[(''matematica'', 3)]" and totais = "[''matematica'' \<mapsto> 30]"
      and pesos = "[]" and nota = 8 and ac = 0
      and esc = "[''matematica'' \<mapsto> 260, ''portugues_redacao'' \<mapsto> 600]"
      and materia' = "''matematica''" and k = 3]
  by (simp add: stats_de_def desvio_de_def escores_de_def media_de_def calcular_ac_para_curso_def
      calcular_escore_padronizado_def)

section \<open>Aggregation\<close>

lemma mh_loop_nao_positivo:
  "(abrev, peso) \<in> set pesos \<Longrightarrow> abrev \<noteq> ''total'' \<Longrightarrow> mapeamento_abrev abrev = Some materia
     \<Longrightarrow> get500 eps materia \<le> 0 \<Longrightarrow> mh_loop eps pesos sp si = 0"
proof (induction pesos arbitrary: sp si)
  case Nil
  then show ?case by simp
next
  case (Cons kp pesos)
  obtain k p where kp: "kp = (k, p)" by (cases kp)
  show ?case
  proof (cases "kp = (abrev, peso)")
    case True
    with Cons.prems kp show ?thesis by (simp add: Let_def)
  next
    case False
    with Cons.prems have "(abrev, peso) \<in> set pesos" by simp
    then have "\<And>sp si. mh_loop eps pesos sp si = 0" using Cons.IH Cons.prems by blast
    then show ?thesis using kp by (simp add: Let_def split: option.splits)
  qed
qed

text \<open>
  The part of C1 that holds: \<open>calcular_media_harmonica_ponderada\<close> returns 0 as soon as one
  weighted subject has a score that is not positive, and both loops return 0 when every key
  of the weights is \<open>total\<close>.
\<close>

lemma calcular_media_harmonica_ponderada_nao_positivo:
  "(abrev, peso) \<in> set pesos \<Longrightarrow> abrev \<noteq> ''total'' \<Longrightarrow> mapeamento_abrev abrev = Some materia
     \<Longrightarrow> get500 eps materia \<le> 0 \<Longrightarrow> calcular_media_harmonica_ponderada eps pesos = 0"
  by (simp add: calcular_media_harmonica_ponderada_def mh_loop_nao_positivo)

lemma mh_loop_so_total:
  "\<forall>(abrev, peso) \<in> set pesos. abrev = ''total'' \<Longrightarrow>
   mh_loop eps pesos sp si = (if si > 0 then sp / si else 0)"
  by (induction pesos arbitrary: sp si) auto

lemma ac_loop_so_total:
  "\<forall>(abrev, peso) \<in> set pesos. abrev = ''total'' \<Longrightarrow>
   ac_loop eps pesos sp si = (if si > 0 then sp / si else 0)"
  by (induction pesos arbitrary: sp si) auto

lemma sem_pesos_efetivos:
  "\<forall>(abrev, peso) \<in> set pesos. abrev = ''total'' \<Longrightarrow>
   calcular_media_harmonica_ponderada eps pesos = 0 \<and> ac_loop eps pesos 0 0 = 0"
  by (simp add: calcular_media_harmonica_ponderada_def mh_loop_so_total ac_loop_so_total)

text \<open>
  C1 fails on \<open>calcular_ac_para_curso\<close>: with no correct answer in mathematics (mean 12,
  deviation 2) the standardised score is \<open>-100\<close>; the loop leaves the subject out and
  returns the score 500 of physics, where \<open>calcular_media_harmonica_ponderada\<close> returns 0.
\<close>

theorem calcular_ac_para_curso_escore_negativo:
  "calcular_ac_para_curso [(''matematica'', 0), (''fisica'', 10)]
     [''matematica'' \<mapsto> 30, ''fisica'' \<mapsto> 30]
     [''matematica'' \<mapsto> \<lparr>media = Some 12, desvio_padrao = Some 2, escores = None\<rparr>,
      ''fisica'' \<mapsto> \<lparr>media = Some 10, desvio_padrao = Some 2, escores = None\<rparr>]
     [(''matematica'', 1), (''fisica'', 1)] 8
   = Inr (500, [''matematica'' \<mapsto> - 100, ''fisica'' \<mapsto> 500, ''portugues_redacao'' \<mapsto> 600])"
  by (simp add: calcular_ac_para_curso_def stats_de_def media_de_def desvio_de_def
      calcular_escore_padronizado_def get500_def)

lemma mh_loop_chaves_conhecidas:
  "mh_loop eps (filter (\<lambda>(abrev, peso). mapeamento_abrev abrev \<noteq> None) pesos) sp si
   = mh_loop eps pesos sp si"
  by (induction pesos arbitrary: sp si) (auto simp: Let_def split: option.splits)

text \<open>
  C3, as the claim states it, fails: the key \<open>XYZ\<close> is no abbreviation of a subject and is
  not \<open>total\<close>, and the aggregation returns the number 600.
\<close>

theorem chave_desconhecida_counterexample:
  "mapeamento_abrev ''XYZ'' = None \<and> ''XYZ'' \<noteq> ''total'' \<and>
   calcular_media_harmonica_ponderada [''matematica'' \<mapsto> 600] [(''XYZ'', 1), (''MAT'', 2)] = 600"
  by (simp add: calcular_media_harmonica_ponderada_def mapeamento_abrev_def get500_def)

text \<open>
  C3 (amended): a weight key that is no abbreviation of a subject is passed over:
  \<open>calcular_media_harmonica_ponderada\<close> returns the number it returns for the weights
  without those keys.
\<close>

theorem chaves_desconhecidas_ignoradas:
  "calcular_media_harmonica_ponderada eps
     (filter (\<lambda>(abrev, peso). mapeamento_abrev abrev \<noteq> None) pesos)
   = calcular_media_harmonica_ponderada eps pesos"
  unfolding calcular_media_harmonica_ponderada_def by (rule mh_loop_chaves_conhecidas)

theorem chaves_desconhecidas_ignoradas_witness:
  "calcular_media_harmonica_ponderada [''matematica'' \<mapsto> 600] [(''MAT'', 2)]
   = calcular_media_harmonica_ponderada [''matematica'' \<mapsto> 600] [(''XYZ'', 1), (''MAT'', 2)]"
  using chaves_desconhecidas_ignoradas [of "[''matematica'' \<mapsto> 600]" "[(''XYZ'', 1), (''MAT'', 2)]"]
  by (simp add: mapeamento_abrev_def)

lemma mh_loop_escala:
  "0 < c \<Longrightarrow>
   mh_loop eps (map (\<lambda>(abrev, peso). (abrev, c * peso)) pesos) (c * sp) (c * si)
   = mh_loop eps pesos sp si"
proof (induction pesos arbitrary: sp si)
  case Nil
  then show ?case by (simp add: zero_less_mult_iff)
next
  case (Cons kp pesos)
  obtain k p where kp: "kp = (k, p)" by (cases kp)
  have a: "c * sp + c * p = c * (sp + p)" by (simp add: algebra_simps)
  have b: "c * si + c * p / ep = c * (si + p / ep)" for ep by (simp add: algebra_simps)
  show ?case using Cons.IH[OF Cons.prems] kp
    by (simp add: Let_def a b split: option.splits)
qed

text \<open>
  In exact arithmetic, which is what these definitions compute, multiplying every weight of
  the table by the same positive constant leaves the result of
  \<open>calcular_media_harmonica_ponderada\<close> unchanged. The program adds and divides doubles and
  rounds at each step, so its two results may differ in the last place; that difference is
  not visible here.
\<close>

lemma pesos_em_escala_aritmetica_exata:
  "0 < c \<Longrightarrow>
   calcular_media_harmonica_ponderada eps (map (\<lambda>(abrev, peso). (abrev, c * peso)) pesos)
   = calcular_media_harmonica_ponderada eps pesos"
  using mh_loop_escala[of c eps pesos 0 0] by (simp add: calcular_media_harmonica_ponderada_def)










section \<open>The map from subjects to questions\<close>

lemma questoes_de_Nil [simp]: "questoes_de chave py_int [] m = []"
  by (simp add: questoes_de_def)

lemma questoes_de_Cons:
  "questoes_de chave py_int (item # rest) m =
     (if chave item = m then faixa py_int item @ questoes_de chave py_int rest m
      else questoes_de chave py_int rest m)"
  by (simp add: questoes_de_def)

lemma dia_loop_Inr:
  "list_all (item_valido chave py_int (map fst mp)) items \<Longrightarrow>
   \<exists>mp'. dia_loop chave py_int items mp = Inr mp' \<and> map fst mp' = map fst mp \<and>
     map_of mp' = (\<lambda>m. map_option (\<lambda>antigas. antigas @ questoes_de chave py_int items m) (map_of mp m))"
proof (induction items arbitrary: mp)
  case Nil
  show ?case by (simp add: fun_eq_iff option.map_ident)
next
  case (Cons item rest)
  from Cons.prems obtain inicio fim where
    pr: "parse_range py_int (item_questoes item) = Inr (inicio, fim)"
    by (cases "parse_range py_int (item_questoes item)") (auto simp: item_valido_def)
  from Cons.prems have "chave item \<in> fst ` set mp" by (simp add: item_valido_def)
  then obtain antigas where old: "map_of mp (chave item) = Some antigas"
    by (cases "map_of mp (chave item)") (auto simp: map_of_eq_None_iff)
  define mp1 where "mp1 = AList.update (chave item) (antigas @ [inicio..fim]) mp"
  have keys1: "map fst mp1 = map fst mp"
    using \<open>chave item \<in> fst ` set mp\<close> by (simp add: mp1_def update_keys)
  have ext: "extend_materia mp (chave item) [inicio..fim] = Inr mp1"
    by (simp add: extend_materia_def old mp1_def)
  from Cons.prems keys1 have "list_all (item_valido chave py_int (map fst mp1)) rest" by simp
  from Cons.IH[OF this] obtain mp' where
    r: "dia_loop chave py_int rest mp1 = Inr mp'" and k: "map fst mp' = map fst mp1" and
    m: "map_of mp' = (\<lambda>m. map_option (\<lambda>antigas. antigas @ questoes_de chave py_int rest m) (map_of mp1 m))"
    by blast
  have fx: "faixa py_int item = [inicio..fim]" by (simp add: faixa_def pr)
  have "map_of mp' = (\<lambda>m. map_option (\<lambda>antigas. antigas @ questoes_de chave py_int (item # rest) m) (map_of mp m))"
    unfolding m by (auto simp: fun_eq_iff mp1_def update_conv' old questoes_de_Cons fx)
  then show ?case using r k keys1 by (simp add: pr ext)
qed

lemma extend_materia_keys: "extend_materia mp k qs = Inr mp1 \<Longrightarrow> k \<in> fst ` set mp \<and> map fst mp1 = map fst mp"
proof -
  assume a: "extend_materia mp k qs = Inr mp1"
  then obtain antigas where old: "map_of mp k = Some antigas"
    and mp1: "mp1 = AList.update k (antigas @ qs) mp"
    by (auto simp: extend_materia_def split: option.splits)
  from old have k: "k \<in> fst ` set mp" by (metis map_of_eq_None_iff option.distinct(1))
  then have "map fst mp1 = map fst mp" by (simp add: mp1 update_keys)
  with k show ?thesis by simp
qed

lemma dia_loop_valido:
  "dia_loop chave py_int items mp = Inr mp' \<Longrightarrow> list_all (item_valido chave py_int (map fst mp)) items"
proof (induction items arbitrary: mp)
  case Nil
  show ?case by simp
next
  case (Cons item rest)
  from Cons.prems obtain inicio fim mp1 where
    pr: "parse_range py_int (item_questoes item) = Inr (inicio, fim)" and
    ext: "extend_materia mp (chave item) [inicio..fim] = Inr mp1" and
    r: "dia_loop chave py_int rest mp1 = Inr mp'"
    by (auto split: sum.splits)
  from extend_materia_keys[OF ext] Cons.IH[OF r] pr show ?case
    by (simp add: item_valido_def)
qed

text \<open>
  C2, as the claim states it, fails: an entry with \<open>start > end\<close> is accepted and adds no
  question, and a question in the ranges of two subjects is accepted and listed under both.
\<close>

theorem mapear_questoes_por_materia_counterexample:
  "mapear_questoes_por_materia ascii_lower int_decimal
     \<lparr>dia_1 = [\<lparr>item_materia = ''Matematica'', item_questoes = ''5-3''\<rparr>], dia_2 = []\<rparr>
   = Inr [(''portugues'', []), (''literatura'', []), (''matematica'', []), (''geografia'', []),
       (''historia'', []), (''fisica'', []), (''quimica'', []), (''biologia'', []),
       (''lingua_estrangeira'', [])]
   \<and> mapear_questoes_por_materia ascii_lower int_decimal
     \<lparr>dia_1 = [\<lparr>item_materia = ''Fisica'', item_questoes = ''1-3''\<rparr>,
               \<lparr>item_materia = ''Quimica'', item_questoes = ''2-4''\<rparr>], dia_2 = []\<rparr>
   = Inr [(''portugues'', []), (''literatura'', []), (''matematica'', []), (''geografia'', []),
       (''historia'', []), (''fisica'', [1, 2, 3]), (''quimica'', [2, 3, 4]), (''biologia'', []),
       (''lingua_estrangeira'', [])]"
  by code_simp

text \<open>
  C2 (amended): \<open>mapear_questoes_por_materia\<close> succeeds exactly when every range string reads
  as two integers and every subject, after normalisation, is one of the nine keys of the
  map; otherwise it fails with \<open>ValueError\<close> or \<open>KeyError\<close>. When it succeeds, the map has
  the nine keys and each subject has the questions of the ranges of its entries, day 1
  before day 2, a range with \<open>start > end\<close> adding none.
\<close>

theorem mapear_questoes_por_materia_caracterizacao:
  "(\<exists>mp. mapear_questoes_por_materia py_lower py_int info = Inr mp) = estrutura_valida py_lower py_int info
   \<and> (estrutura_valida py_lower py_int info \<longrightarrow>
       (\<exists>mp. mapear_questoes_por_materia py_lower py_int info = Inr mp \<and>
          map fst mp = map fst mapeamento_inicial \<and>
          (\<forall>materia \<in> set (map fst mapeamento_inicial).
             map_of mp materia =
               Some (questoes_de (chave_dia1 py_lower) py_int (dia_1 info) materia @
                     questoes_de (chave_dia2 py_lower) py_int (dia_2 info) materia))))"
proof -
  have ini: "map_of mapeamento_inicial m = (if m \<in> set (map fst mapeamento_inicial) then Some [] else None)" for m
    by (simp add: mapeamento_inicial_def)
  have A: "\<exists>mp. mapear_questoes_por_materia py_lower py_int info = Inr mp \<and>
          map fst mp = map fst mapeamento_inicial \<and>
          (\<forall>materia \<in> set (map fst mapeamento_inicial).
             map_of mp materia =
               Some (questoes_de (chave_dia1 py_lower) py_int (dia_1 info) materia @
                     questoes_de (chave_dia2 py_lower) py_int (dia_2 info) materia))"
    if v: "estrutura_valida py_lower py_int info"
  proof -
    from v have v1: "list_all (item_valido (chave_dia1 py_lower) py_int (map fst mapeamento_inicial)) (dia_1 info)"
      and v2: "list_all (item_valido (chave_dia2 py_lower) py_int (map fst mapeamento_inicial)) (dia_2 info)"
      by (simp_all add: estrutura_valida_def)
    from dia_loop_Inr[OF v1] obtain mp1 where
      r1: "dia_loop (chave_dia1 py_lower) py_int (dia_1 info) mapeamento_inicial = Inr mp1" and
      k1: "map fst mp1 = map fst mapeamento_inicial" and
      m1: "map_of mp1 = (\<lambda>m. map_option (\<lambda>antigas. antigas @ questoes_de (chave_dia1 py_lower) py_int (dia_1 info) m) (map_of mapeamento_inicial m))"
      by blast
    from v2 k1 have "list_all (item_valido (chave_dia2 py_lower) py_int (map fst mp1)) (dia_2 info)" by simp
    from dia_loop_Inr[OF this] obtain mp2 where
      r2: "dia_loop (chave_dia2 py_lower) py_int (dia_2 info) mp1 = Inr mp2" and
      k2: "map fst mp2 = map fst mp1" and
      m2: "map_of mp2 = (\<lambda>m. map_option (\<lambda>antigas. antigas @ questoes_de (chave_dia2 py_lower) py_int (dia_2 info) m) (map_of mp1 m))"
      by blast
    have "mapear_questoes_por_materia py_lower py_int info = Inr mp2"
      by (simp add: mapear_questoes_por_materia_def r1 r2)
    moreover have "map fst mp2 = map fst mapeamento_inicial" using k1 k2 by simp
    moreover have "\<forall>materia \<in> set (map fst mapeamento_inicial).
             map_of mp2 materia =
               Some (questoes_de (chave_dia1 py_lower) py_int (dia_1 info) materia @
                     questoes_de (chave_dia2 py_lower) py_int (dia_2 info) materia)"
      unfolding m2 m1 ini by simp
    ultimately show ?thesis by blast
  qed
  have B: "estrutura_valida py_lower py_int info" if "mapear_questoes_por_materia py_lower py_int info = Inr mp" for mp
  proof -
    from that obtain mp1 where
      r1: "dia_loop (chave_dia1 py_lower) py_int (dia_1 info) mapeamento_inicial = Inr mp1" and
      r2: "dia_loop (chave_dia2 py_lower) py_int (dia_2 info) mp1 = Inr mp"
      by (auto simp: mapear_questoes_por_materia_def split: sum.splits)
    from dia_loop_Inr[OF dia_loop_valido[OF r1]] r1 have "map fst mp1 = map fst mapeamento_inicial" by auto
    with dia_loop_valido[OF r1] dia_loop_valido[OF r2] show ?thesis
      by (simp add: estrutura_valida_def)
  qed
  from A B show ?thesis by blast
qed

theorem mapear_questoes_por_materia_caracterizacao_witness:
  "estrutura_valida ascii_lower int_decimal
     \<lparr>dia_1 = [\<lparr>item_materia = ''Lingua Portuguesa'', item_questoes = ''1-3''\<rparr>,
               \<lparr>item_materia = ''Literatura'', item_questoes = ''4-5''\<rparr>],
      dia_2 = [\<lparr>item_materia = ''Ingles'', item_questoes = ''61-62''\<rparr>,
               \<lparr>item_materia = ''Espanhol'', item_questoes = ''61-62''\<rparr>]\<rparr>
   \<and> (\<exists>mp. mapear_questoes_por_materia ascii_lower int_decimal
     \<lparr>dia_1 = [\<lparr>item_materia = ''Lingua Portuguesa'', item_questoes = ''1-3''\<rparr>,
               \<lparr>item_materia = ''Literatura'', item_questoes = ''4-5''\<rparr>],
      dia_2 = [\<lparr>item_materia = ''Ingles'', item_questoes = ''61-62''\<rparr>,
               \<lparr>item_materia = ''Espanhol'', item_questoes = ''61-62''\<rparr>]\<rparr> = Inr mp
      \<and> map_of mp ''lingua_estrangeira'' = Some [61, 62, 61, 62])"
  (is "?valida \<and> ?mapa")
proof -
  have v: ?valida by code_simp
  have q: "questoes_de (chave_dia1 ascii_lower) int_decimal
       [\<lparr>item_materia = ''Lingua Portuguesa'', item_questoes = ''1-3''\<rparr>,
        \<lparr>item_materia = ''Literatura'', item_questoes = ''4-5''\<rparr>] ''lingua_estrangeira'' @
     questoes_de (chave_dia2 ascii_lower) int_decimal
       [\<lparr>item_materia = ''Ingles'', item_questoes = ''61-62''\<rparr>,
        \<lparr>item_materia = ''Espanhol'', item_questoes = ''61-62''\<rparr>] ''lingua_estrangeira''
     = [61, 62, 61, 62]"
    by code_simp
  have k: "''lingua_estrangeira'' \<in> set (map fst mapeamento_inicial)"
    by (simp add: mapeamento_inicial_def)
  from mapear_questoes_por_materia_caracterizacao [of ascii_lower int_decimal
     "\<lparr>dia_1 = [\<lparr>item_materia = ''Lingua Portuguesa'', item_questoes = ''1-3''\<rparr>,
               \<lparr>item_materia = ''Literatura'', item_questoes = ''4-5''\<rparr>],
      dia_2 = [\<lparr>item_materia = ''Ingles'', item_questoes = ''61-62''\<rparr>,
               \<lparr>item_materia = ''Espanhol'', item_questoes = ''61-62''\<rparr>]\<rparr>"] v
  obtain mp where
    r: "mapear_questoes_por_materia ascii_lower int_decimal
     \<lparr>dia_1 = [\<lparr>item_materia = ''Lingua Portuguesa'', item_questoes = ''1-3''\<rparr>,
               \<lparr>item_materia = ''Literatura'', item_questoes = ''4-5''\<rparr>],
      dia_2 = [\<lparr>item_materia = ''Ingles'', item_questoes = ''61-62''\<rparr>,
               \<lparr>item_materia = ''Espanhol'', item_questoes = ''61-62''\<rparr>]\<rparr> = Inr mp" and
    m: "\<forall>materia \<in> set (map fst mapeamento_inicial). map_of mp materia =
          Some (questoes_de (chave_dia1 ascii_lower) int_decimal
                  (dia_1 \<lparr>dia_1 = [\<lparr>item_materia = ''Lingua Portuguesa'', item_questoes = ''1-3''\<rparr>,
               \<lparr>item_materia = ''Literatura'', item_questoes = ''4-5''\<rparr>],
      dia_2 = [\<lparr>item_materia = ''Ingles'', item_questoes = ''61-62''\<rparr>,
               \<lparr>item_materia = ''Espanhol'', item_questoes = ''61-62''\<rparr>]\<rparr>) materia @
                questoes_de (chave_dia2 ascii_lower) int_decimal
                  (dia_2 \<lparr>dia_1 = [\<lparr>item_materia = ''Lingua Portuguesa'', item_questoes = ''1-3''\<rparr>,
               \<lparr>item_materia = ''Literatura'', item_questoes = ''4-5''\<rparr>],
      dia_2 = [\<lparr>item_materia = ''Ingles'', item_questoes = ''61-62''\<rparr>,
               \<lparr>item_materia = ''Espanhol'', item_questoes = ''61-62''\<rparr>]\<rparr>) materia)"
    by blast
  from bspec [OF m k] q have "map_of mp ''lingua_estrangeira'' = Some [61, 62, 61, 62]" by simp
  with r have ?mapa by blast
  with v show ?thesis by simp
qed

section \<open>Counting correct answers\<close>

lemma teste_dia:
  "q \<in> set questoes \<Longrightarrow>
   list_ex (\<lambda>num. 1 \<le> num \<and> num \<le> 60) (filter (\<lambda>num. num = q) questoes) = (1 \<le> q \<and> q \<le> 60)"
  by (auto simp: list_ex_iff)

lemma questoes_loop_igual:
  "set qs \<subseteq> set questoes \<Longrightarrow> \<forall>q \<in> set qs. 1 \<le> q \<Longrightarrow>
   questoes_loop_ac p1 p2 materia questoes qs acertos = questoes_loop_mh p1 p2 materia qs acertos"
  by (induction qs arbitrary: acertos) (simp_all add: teste_dia)

lemma materias_loop_igual:
  "\<forall>(materia, questoes) \<in> set mapeamento. \<forall>q \<in> set questoes. 1 \<le> q \<Longrightarrow>
   materias_loop_ac p1 p2 mapeamento acertos = materias_loop_mh p1 p2 mapeamento acertos"
  by (induction mapeamento arbitrary: acertos) (auto simp: questoes_loop_igual)

text \<open>
  C10: when every question number of the map is at least 1, the two functions
  \<open>contar_acertos_por_materia\<close> return the same counts for every candidate.
\<close>

theorem contar_acertos_por_materia_iguais:
  "\<forall>(materia, questoes) \<in> set mapeamento_questoes. \<forall>q \<in> set questoes. 1 \<le> q \<Longrightarrow>
   contar_acertos_por_materia_ac results mapeamento_questoes
   = contar_acertos_por_materia_mh results mapeamento_questoes"
  by (simp add: contar_acertos_por_materia_ac_def contar_acertos_por_materia_mh_def
      materias_loop_igual)

theorem contar_acertos_por_materia_iguais_witness:
  "list_all (\<lambda>(materia, questoes). list_all (\<lambda>q. 1 \<le> q) questoes)
     [(''portugues'', [1, 2, 3]), (''literatura'', [4, 5]), (''fisica'', [61, 62, 63 :: int])]
   \<and> contar_acertos_por_materia_ac
       \<lparr>PRIMEIRA_PROVA = Some \<lparr>iguais = Some [1, 2, 5, 61]\<rparr>,
        SEGUNDA_PROVA = Some \<lparr>iguais = Some [61, 62, 3]\<rparr>\<rparr>
       [(''portugues'', [1, 2, 3]), (''literatura'', [4, 5]), (''fisica'', [61, 62, 63])]
     = [(''portugues'', 2), (''literatura'', 1), (''fisica'', 2)]"
  (is "?h \<and> ?ac = ?r")
proof -
  have h: "\<forall>(materia, questoes) \<in> set [(''portugues'', [1, 2, 3]), (''literatura'', [4, 5]),
        (''fisica'', [61, 62, 63 :: int])]. \<forall>q \<in> set questoes. 1 \<le> q"
    by simp
  have e: "contar_acertos_por_materia_mh
       \<lparr>PRIMEIRA_PROVA = Some \<lparr>iguais = Some [1, 2, 5, 61]\<rparr>,
        SEGUNDA_PROVA = Some \<lparr>iguais = Some [61, 62, 3]\<rparr>\<rparr>
       [(''portugues'', [1, 2, 3]), (''literatura'', [4, 5]), (''fisica'', [61, 62, 63])] = ?r"
    by code_simp
  from contar_acertos_por_materia_iguais [OF h] e have "?ac = ?r" by simp
  moreover have ?h by simp
  ultimately show ?thesis by simp
qed

text \<open>The bound is needed: the two day tests differ on a question number below 1.\<close>

lemma contar_acertos_por_materia_questao_zero:
  "contar_acertos_por_materia_ac \<lparr>PRIMEIRA_PROVA = Some \<lparr>iguais = Some [0, 1]\<rparr>, SEGUNDA_PROVA = None\<rparr>
     [(''portugues'', [0, 1])] = [(''portugues'', 1)]
   \<and> contar_acertos_por_materia_mh \<lparr>PRIMEIRA_PROVA = Some \<lparr>iguais = Some [0, 1]\<rparr>, SEGUNDA_PROVA = None\<rparr>
     [(''portugues'', [0, 1])] = [(''portugues'', 2)]"
  by code_simp

section \<open>Cutoffs\<close>

lemma ocorre_em_sublist: "ocorre_em padrao s = sublist padrao s"
  by (induction s) (simp_all add: sublist_Cons_right)

lemma buscar_nota_None:
  "buscar_nota padrao notas = None \<longleftrightarrow> (\<forall>(k, v) \<in> set notas. \<not> ocorre_em padrao k)"
proof (induction notas)
  case Nil
  show ?case by simp
next
  case (Cons kv notas)
  obtain k v where kv: "kv = (k, v)" by (cases kv)
  show ?case using Cons.IH by (simp add: kv)
qed

lemma buscar_nota_primeiro:
  "buscar_nota padrao notas = Some (k, v) \<Longrightarrow>
   \<exists>antes depois. notas = antes @ (k, v) # depois \<and> ocorre_em padrao k \<and>
      (\<forall>(k', v') \<in> set antes. \<not> ocorre_em padrao k')"
proof (induction notas)
  case Nil
  then show ?case by simp
next
  case (Cons kv notas)
  obtain k0 v0 where kv: "kv = (k0, v0)" by (cases kv)
  show ?case
  proof (cases "ocorre_em padrao k0")
    case True
    with Cons.prems kv have e: "k0 = k" "v0 = v" by simp_all
    have "kv # notas = [] @ (k, v) # notas \<and> ocorre_em padrao k \<and>
      (\<forall>(k', v') \<in> set []. \<not> ocorre_em padrao k')"
      using True e kv by simp
    then show ?thesis by (intro exI)
  next
    case False
    with Cons.prems kv have "buscar_nota padrao notas = Some (k, v)" by simp
    from Cons.IH[OF this] obtain antes depois where
      n: "notas = antes @ (k, v) # depois" and o: "ocorre_em padrao k" and
      a: "\<forall>(k', v') \<in> set antes. \<not> ocorre_em padrao k'"
      by auto
    have "kv # notas = (kv # antes) @ (k, v) # depois \<and> ocorre_em padrao k \<and>
      (\<forall>(k', v') \<in> set (kv # antes). \<not> ocorre_em padrao k')"
      using n o a False by (simp add: kv)
    then show ?thesis by (intro exI)
  qed
qed


lemma alias_agronomia:
  "map_of mapeamento_especial ''Agronomia'' = Some (Some ''Agronomia (Integral)'')"
  by code_simp

lemma alias_geologia: "map_of mapeamento_especial ''Geologia'' = Some (Some ''Geologia'')"
  by code_simp

lemma alias_zootecnia: "map_of mapeamento_especial ''Zootecnia'' = Some None"
  by code_simp

text \<open>
  C7: \<open>mapear_curso_nota_corte\<close> returns the absent result exactly when the name is no key
  of the alias table, or the table gives it no fragment, or no key of the cutoff table
  contains the fragment; every other result is the first entry of the cutoff table, in its
  order, whose key contains the fragment, with the cutoff of that entry.
\<close>

theorem mapear_curso_nota_corte_ausente_ou_primeiro:
  "(mapear_curso_nota_corte nome notas_corte = None \<longleftrightarrow>
      nome \<notin> fst ` set mapeamento_especial
      \<or> map_of mapeamento_especial nome = Some None
      \<or> (\<exists>padrao. map_of mapeamento_especial nome = Some (Some padrao) \<and>
            (\<forall>(k, v) \<in> set notas_corte. \<not> ocorre_em padrao k)))
   \<and> (\<forall>k v. mapear_curso_nota_corte nome notas_corte = Some (k, v) \<longrightarrow>
          (\<exists>padrao antes depois. map_of mapeamento_especial nome = Some (Some padrao) \<and>
             notas_corte = antes @ (k, v) # depois \<and> ocorre_em padrao k \<and>
             (\<forall>(k', v') \<in> set antes. \<not> ocorre_em padrao k')))"
proof (cases "map_of mapeamento_especial nome")
  case None
  then have "nome \<notin> fst ` set mapeamento_especial" by (simp add: map_of_eq_None_iff)
  with None show ?thesis by (simp add: mapear_curso_nota_corte_def)
next
  case (Some alvo)
  then have dentro: "nome \<in> fst ` set mapeamento_especial"
    by (metis map_of_eq_None_iff option.distinct(1))
  show ?thesis
  proof (cases alvo)
    case None
    with Some show ?thesis by (simp add: mapear_curso_nota_corte_def)
  next
    case (Some padrao)
    with \<open>map_of mapeamento_especial nome = Some alvo\<close>
    have m: "map_of mapeamento_especial nome = Some (Some padrao)" by simp
    have r: "mapear_curso_nota_corte nome notas_corte = buscar_nota padrao notas_corte"
      by (simp add: mapear_curso_nota_corte_def m)
    have um: "mapear_curso_nota_corte nome notas_corte = None \<longleftrightarrow>
      nome \<notin> fst ` set mapeamento_especial
      \<or> map_of mapeamento_especial nome = Some None
      \<or> (\<exists>padrao. map_of mapeamento_especial nome = Some (Some padrao) \<and>
            (\<forall>(k, v) \<in> set notas_corte. \<not> ocorre_em padrao k))"
      using dentro by (simp add: m r buscar_nota_None)
    have dois: "\<exists>padrao antes depois. map_of mapeamento_especial nome = Some (Some padrao) \<and>
             notas_corte = antes @ (k, v) # depois \<and> ocorre_em padrao k \<and>
             (\<forall>(k', v') \<in> set antes. \<not> ocorre_em padrao k')"
      if "mapear_curso_nota_corte nome notas_corte = Some (k, v)" for k v
    proof -
      from that r have "buscar_nota padrao notas_corte = Some (k, v)" by simp
      from buscar_nota_primeiro[OF this] obtain antes depois where
        "notas_corte = antes @ (k, v) # depois \<and> ocorre_em padrao k \<and>
           (\<forall>(k', v') \<in> set antes. \<not> ocorre_em padrao k')" by auto
      with m have "map_of mapeamento_especial nome = Some (Some padrao) \<and>
             notas_corte = antes @ (k, v) # depois \<and> ocorre_em padrao k \<and>
             (\<forall>(k', v') \<in> set antes. \<not> ocorre_em padrao k')" by simp
      then show ?thesis by (intro exI)
    qed
    show ?thesis
    proof (intro conjI allI impI)
      show "mapear_curso_nota_corte nome notas_corte = None \<longleftrightarrow>
      nome \<notin> fst ` set mapeamento_especial
      \<or> map_of mapeamento_especial nome = Some None
      \<or> (\<exists>padrao. map_of mapeamento_especial nome = Some (Some padrao) \<and>
            (\<forall>(k, v) \<in> set notas_corte. \<not> ocorre_em padrao k))" by (rule um)
    next
      fix k v assume "mapear_curso_nota_corte nome notas_corte = Some (k, v)"
      then show "\<exists>padrao antes depois. map_of mapeamento_especial nome = Some (Some padrao) \<and>
             notas_corte = antes @ (k, v) # depois \<and> ocorre_em padrao k \<and>
             (\<forall>(k', v') \<in> set antes. \<not> ocorre_em padrao k')" by (rule dois)
    qed
  qed
qed

theorem mapear_curso_nota_corte_ausente_ou_primeiro_witness:
  "mapear_curso_nota_corte ''Agronomia''
     [(''Zootecnia'', 480), (''Agronomia (Integral) - Porto Alegre'', 520), (''Agronomia (Integral)'', 530)]
     = Some (''Agronomia (Integral) - Porto Alegre'', 520)
   \<and> (\<exists>padrao antes depois. map_of mapeamento_especial ''Agronomia'' = Some (Some padrao) \<and>
         [(''Zootecnia'', 480), (''Agronomia (Integral) - Porto Alegre'', 520 :: real), (''Agronomia (Integral)'', 530)]
           = antes @ (''Agronomia (Integral) - Porto Alegre'', 520) # depois \<and>
         ocorre_em padrao ''Agronomia (Integral) - Porto Alegre'' \<and>
         (\<forall>(k', v') \<in> set antes. \<not> ocorre_em padrao k'))
   \<and> map_of mapeamento_especial ''Zootecnia'' = Some None
   \<and> mapear_curso_nota_corte ''Zootecnia'' [(''Zootecnia'', 480)] = None"
  (is "?r = Some (?k, ?v) \<and> ?primeiro \<and> ?sem \<and> ?ausente")
proof -
  have e: "?r = Some (?k, ?v)"
    by (simp add: mapear_curso_nota_corte_def alias_agronomia)
  have "\<forall>k v. ?r = Some (k, v) \<longrightarrow>
          (\<exists>padrao antes depois. map_of mapeamento_especial ''Agronomia'' = Some (Some padrao) \<and>
             [(''Zootecnia'', 480), (''Agronomia (Integral) - Porto Alegre'', 520), (''Agronomia (Integral)'', 530)]
               = antes @ (k, v) # depois \<and> ocorre_em padrao k \<and>
             (\<forall>(k', v') \<in> set antes. \<not> ocorre_em padrao k'))"
    using mapear_curso_nota_corte_ausente_ou_primeiro [of "''Agronomia''"
        "[(''Zootecnia'', 480), (''Agronomia (Integral) - Porto Alegre'', 520), (''Agronomia (Integral)'', 530)]"]
    by (rule conjunct2)
  then have "?r = Some (?k, ?v) \<longrightarrow> ?primeiro" by (elim allE)
  with e have p: ?primeiro by simp
  have a: ?ausente
    using mapear_curso_nota_corte_ausente_ou_primeiro [of "''Zootecnia''" "[(''Zootecnia'', 480)]"]
      alias_zootecnia by simp
  from e p a alias_zootecnia show ?thesis by simp
qed

section \<open>Approval\<close>

text \<open>Every course lands in exactly one of the three lists.\<close>

lemma classificar_loop_total:
  "length (aprovados (classificar_loop notas cursos p))
     + length (reprovados (classificar_loop notas cursos p))
     + length (sem_nota_corte (classificar_loop notas cursos p))
   = length (aprovados p) + length (reprovados p) + length (sem_nota_corte p) + length cursos"
  by (induction cursos arbitrary: p) (auto simp: Let_def split: option.splits)

text \<open>
  C6 fails for a cutoff of zero: the cutoff of \<open>Geologia\<close> is found and the score 562.5 is
  above it, but the truth test \<open>curso_completo and nota_corte\<close> takes the cutoff 0 for a
  missing one and files the course under \<open>sem_nota_corte\<close>.
\<close>

theorem classificar_cursos_nota_corte_zero:
  "mapear_curso_nota_corte ''Geologia'' [(''Geologia'', 0)] = Some (''Geologia'', 0)
   \<and> calcular_media_harmonica_ponderada
       [''portugues'' \<mapsto> 400, ''literatura'' \<mapsto> 500, ''matematica'' \<mapsto> 600, ''geografia'' \<mapsto> 500,
        ''historia'' \<mapsto> 500, ''fisica'' \<mapsto> 500, ''quimica'' \<mapsto> 500, ''biologia'' \<mapsto> 500,
        ''lingua_estrangeira'' \<mapsto> 500, ''portugues_redacao'' \<mapsto> 500]
       [(''MAT'', 2), (''POR'', 1), (''total'', 3)] = 1125 / 2
   \<and> classificar_cursos
       [''portugues'' \<mapsto> 400, ''literatura'' \<mapsto> 500, ''matematica'' \<mapsto> 600, ''geografia'' \<mapsto> 500,
        ''historia'' \<mapsto> 500, ''fisica'' \<mapsto> 500, ''quimica'' \<mapsto> 500, ''biologia'' \<mapsto> 500,
        ''lingua_estrangeira'' \<mapsto> 500, ''portugues_redacao'' \<mapsto> 500]
       [(''Geologia'', [(''MAT'', 2), (''POR'', 1), (''total'', 3)])] [(''Geologia'', 0)]
   = \<lparr>aprovados = [], reprovados = [], sem_nota_corte = [(''Geologia'', 1125 / 2)]\<rparr>"
  by (simp add: classificar_cursos_def calcular_media_harmonica_ponderada_def mapeamento_abrev_def
      get500_def mapear_curso_nota_corte_def alias_geologia)

end
